theory Spec2Isabelle
  imports Main
begin

section \<open>The Game value (hangman.py)\<close>

text \<open>
  \<^verbatim>\<open>class Game(NamedTuple)\<close> has four fields. The state is a Python \<^verbatim>\<open>str\<close>, so it is a
  \<^typ>\<open>string\<close> here: any tag can be stored in it, not only the ones the transitions
  write. The two sets hold values of one letter type \<open>'a\<close>, and \<^verbatim>\<open>guesses_left\<close> is an
  unbounded Python integer. \<^verbatim>\<open>_replace\<close> builds a new tuple with some fields
  changed, which is record update, and \<^verbatim>\<open>==\<close> on named tuples compares field by field,
  which is equality of records.
\<close>

record 'a Game =
  state :: string
  guessed :: "'a set"
  letters :: "'a set"
  guesses_left :: int

section \<open>impl/nested.py\<close>

definition maybe_won :: "'a Game \<Rightarrow> 'a Game" where
  "maybe_won game =
     (if letters game \<subseteq> guessed game
      then game\<lparr>state := ''won''\<rparr>
      else game\<lparr>state := ''good_guess''\<rparr>)"

definition score_guess :: "'a Game \<Rightarrow> 'a \<Rightarrow> 'a Game" where
  "score_guess game guess =
     (if guess \<in> letters game
      then maybe_won game
      else (if guesses_left game = 1
            then game\<lparr>guesses_left := 0, state := ''lost''\<rparr>
            else game\<lparr>guesses_left := guesses_left game - 1, state := ''bad_guess''\<rparr>))"

definition accept_guess :: "'a Game \<Rightarrow> 'a \<Rightarrow> 'a Game" where
  "accept_guess game guess =
     (if guess \<in> guessed game
      then game\<lparr>state := ''already_guessed''\<rparr>
      else score_guess (game\<lparr>guessed := guessed game \<union> {guess}\<rparr>) guess)"

definition nested_make_guess :: "'a Game \<Rightarrow> 'a \<Rightarrow> 'a Game" where
  "nested_make_guess game guess =
     (if state game \<notin> set [''won'', ''lost'']
      then accept_guess game guess
      else game)"

section \<open>impl/indexed.py\<close>

definition indexed_is_game_already_over :: "'a Game \<Rightarrow> bool" where
  "indexed_is_game_already_over game \<longleftrightarrow> state game \<in> set [''won'', ''lost'']"

definition indexed_is_already_guessed :: "'a Game \<Rightarrow> 'a \<Rightarrow> bool" where
  "indexed_is_already_guessed game guess \<longleftrightarrow> guess \<in> guessed game"

definition indexed_is_winning_guess :: "'a Game \<Rightarrow> 'a \<Rightarrow> bool" where
  "indexed_is_winning_guess game guess \<longleftrightarrow> letters game \<subseteq> guessed game \<union> {guess}"

definition indexed_is_losing_guess :: "'a Game \<Rightarrow> 'a \<Rightarrow> bool" where
  "indexed_is_losing_guess game guess \<longleftrightarrow> guess \<notin> letters game \<and> guesses_left game = 1"

definition indexed_is_good_guess :: "'a Game \<Rightarrow> 'a \<Rightarrow> bool" where
  "indexed_is_good_guess game guess \<longleftrightarrow> guess \<in> letters game"

definition indexed_make_guess :: "'a Game \<Rightarrow> 'a \<Rightarrow> 'a Game" where
  "indexed_make_guess game guess =
     (if indexed_is_game_already_over game then game
      else if indexed_is_already_guessed game guess then
        game\<lparr>state := ''already_guessed''\<rparr>
      else if indexed_is_winning_guess game guess then
        game\<lparr>state := ''won'', guessed := guessed game \<union> {guess}\<rparr>
      else if indexed_is_losing_guess game guess then
        game\<lparr>state := ''lost'', guessed := guessed game \<union> {guess}, guesses_left := 0\<rparr>
      else if indexed_is_good_guess game guess then
        game\<lparr>state := ''good_guess'', guessed := guessed game \<union> {guess}\<rparr>
      else
        game\<lparr>state := ''bad_guess'', guessed := guessed game \<union> {guess},
             guesses_left := guesses_left game - 1\<rparr>)"

section \<open>impl/indexed\_fns.py\<close>

subsection \<open>Predicates\<close>

definition indexed_fns_is_game_already_over :: "'a Game \<Rightarrow> bool" where
  "indexed_fns_is_game_already_over game \<longleftrightarrow> state game \<in> set [''won'', ''lost'']"

definition indexed_fns_is_already_guessed :: "'a Game \<Rightarrow> 'a \<Rightarrow> bool" where
  "indexed_fns_is_already_guessed game guess \<longleftrightarrow> guess \<in> guessed game"

definition indexed_fns_is_winning_guess :: "'a Game \<Rightarrow> 'a \<Rightarrow> bool" where
  "indexed_fns_is_winning_guess game guess \<longleftrightarrow> letters game \<subseteq> guessed game \<union> {guess}"

definition indexed_fns_is_losing_guess :: "'a Game \<Rightarrow> 'a \<Rightarrow> bool" where
  "indexed_fns_is_losing_guess game guess \<longleftrightarrow>
     guess \<notin> letters game \<and> guesses_left game = 1"

definition indexed_fns_is_good_guess :: "'a Game \<Rightarrow> 'a \<Rightarrow> bool" where
  "indexed_fns_is_good_guess game guess \<longleftrightarrow> guess \<in> letters game"

subsection \<open>Consequents\<close>

definition already_guessed :: "'a Game \<Rightarrow> 'a Game" where
  "already_guessed game = game\<lparr>state := ''already_guessed''\<rparr>"

definition win :: "'a Game \<Rightarrow> 'a \<Rightarrow> 'a Game" where
  "win game guess = game\<lparr>state := ''won'', guessed := guessed game \<union> {guess}\<rparr>"

definition lose :: "'a Game \<Rightarrow> 'a \<Rightarrow> 'a Game" where
  "lose game guess =
     game\<lparr>state := ''lost'', guessed := guessed game \<union> {guess}, guesses_left := 0\<rparr>"

definition good_guess :: "'a Game \<Rightarrow> 'a \<Rightarrow> 'a Game" where
  "good_guess game guess =
     game\<lparr>state := ''good_guess'', guessed := guessed game \<union> {guess}\<rparr>"

definition bad_guess :: "'a Game \<Rightarrow> 'a \<Rightarrow> 'a Game" where
  "bad_guess game guess =
     game\<lparr>state := ''bad_guess'', guessed := guessed game \<union> {guess},
          guesses_left := guesses_left game - 1\<rparr>"

definition indexed_fns_make_guess :: "'a Game \<Rightarrow> 'a \<Rightarrow> 'a Game" where
  "indexed_fns_make_guess game guess =
     (if indexed_fns_is_game_already_over game then game
      else if indexed_fns_is_already_guessed game guess then already_guessed game
      else if indexed_fns_is_winning_guess game guess then win game guess
      else if indexed_fns_is_losing_guess game guess then lose game guess
      else if indexed_fns_is_good_guess game guess then good_guess game guess
      else bad_guess game guess)"

section \<open>The game built by the test suite\<close>

text \<open>
  \<^verbatim>\<open>create_game()\<close> of hangman\_test.py with no keyword arguments: the empty state tag,
  nothing guessed, no secret letters and one guess left. The tests guess strings such as
  \<^verbatim>\<open>'m'\<close>, so the letter type is \<^typ>\<open>string\<close>.
\<close>

definition create_game :: "string Game" where
  "create_game = \<lparr>state = '''', guessed = {}, letters = {}, guesses_left = 1\<rparr>"

section \<open>Games with a usable count of guesses\<close>

text \<open>
  The count reaches 0 only through the losing branch, which also sets the state to
  \<open>lost\<close>. A game that is still open with no guesses left is outside what the transitions
  produce, and on such a game a wrong guess takes the fallback branch, because the losing
  branch tests \<open>guesses_left = 1\<close> and nothing else.
\<close>

definition open_with_guesses :: "'a Game \<Rightarrow> bool" where
  "open_with_guesses g \<longleftrightarrow>
     0 \<le> guesses_left g \<and> (guesses_left g = 0 \<longrightarrow> state g \<in> {''won'', ''lost''})"

section \<open>Unfolding the three implementations\<close>

lemmas nested_defs =
  nested_make_guess_def accept_guess_def score_guess_def maybe_won_def

lemmas indexed_defs =
  indexed_make_guess_def indexed_is_game_already_over_def indexed_is_already_guessed_def
  indexed_is_winning_guess_def indexed_is_losing_guess_def indexed_is_good_guess_def

lemmas indexed_fns_defs =
  indexed_fns_make_guess_def indexed_fns_is_game_already_over_def
  indexed_fns_is_already_guessed_def indexed_fns_is_winning_guess_def
  indexed_fns_is_losing_guess_def indexed_fns_is_good_guess_def
  already_guessed_def win_def lose_def good_guess_def bad_guess_def

text \<open>
  The flat version and the version with named consequents are the same function: the
  predicates are copies of each other and each consequent is the record update that the
  flat version writes in place.
\<close>

lemma indexed_fns_eq_indexed:
  "indexed_fns_make_guess game guess = indexed_make_guess game guess"
  by (simp add: indexed_defs indexed_fns_defs)

text \<open>
  The nested version scores a new guess by membership in \<open>letters\<close> first and only then
  asks whether the word is complete; the flat versions ask whether the word is complete
  first. They agree unless the game is still open, the guess is new, the guess is not a
  secret letter and the secret letters are covered all the same.
\<close>

lemma nested_eq_indexed:
  assumes "state game \<in> set [''won'', ''lost''] \<or> guess \<in> guessed game
           \<or> guess \<in> letters game \<or> \<not> letters game \<subseteq> guessed game \<union> {guess}"
  shows "nested_make_guess game guess = indexed_make_guess game guess"
  using assms by (auto simp add: nested_defs indexed_defs)

section \<open>Terminal games and repeated guesses\<close>

text \<open>
  Claim C5. For every game whose state is \<open>won\<close> or \<open>lost\<close> and every letter, each of the
  three implementations returns the game it was given, equal in every field.
\<close>

theorem make_guess_terminal_unchanged:
  assumes "state g \<in> {''won'', ''lost''}"
  shows "nested_make_guess g x = g
         \<and> indexed_make_guess g x = g
         \<and> indexed_fns_make_guess g x = g"
  using assms by (auto simp add: nested_defs indexed_defs indexed_fns_defs)

theorem make_guess_terminal_unchanged_witness:
  "state (create_game\<lparr>state := ''won''\<rparr>) \<in> {''won'', ''lost''}
   \<and> nested_make_guess (create_game\<lparr>state := ''won''\<rparr>) ''m''
       = create_game\<lparr>state := ''won''\<rparr>
   \<and> indexed_make_guess (create_game\<lparr>state := ''won''\<rparr>) ''m''
       = create_game\<lparr>state := ''won''\<rparr>
   \<and> indexed_fns_make_guess (create_game\<lparr>state := ''won''\<rparr>) ''m''
       = create_game\<lparr>state := ''won''\<rparr>"
  using make_guess_terminal_unchanged [of "create_game\<lparr>state := ''won''\<rparr>" "''m''"]
  by (simp add: create_game_def)

text \<open>
  Claim C6. For every game whose state is neither \<open>won\<close> nor \<open>lost\<close> and every letter that
  is already in \<open>guessed\<close>, each implementation returns the input with the state set to
  \<open>already_guessed\<close> and nothing else changed: \<open>guessed\<close>, \<open>letters\<close> and \<open>guesses_left\<close>
  are those of the input.
\<close>

theorem make_guess_repeat:
  assumes "state g \<notin> {''won'', ''lost''}" and "x \<in> guessed g"
  shows "nested_make_guess g x = g\<lparr>state := ''already_guessed''\<rparr>
         \<and> indexed_make_guess g x = g\<lparr>state := ''already_guessed''\<rparr>
         \<and> indexed_fns_make_guess g x = g\<lparr>state := ''already_guessed''\<rparr>"
  using assms by (auto simp add: nested_defs indexed_defs indexed_fns_defs)

theorem make_guess_repeat_witness:
  "state (create_game\<lparr>guessed := {''a''}\<rparr>) \<notin> {''won'', ''lost''}
   \<and> ''a'' \<in> guessed (create_game\<lparr>guessed := {''a''}\<rparr>)
   \<and> nested_make_guess (create_game\<lparr>guessed := {''a''}\<rparr>) ''a''
       = \<lparr>state = ''already_guessed'', guessed = {''a''}, letters = {}, guesses_left = 1\<rparr>
   \<and> indexed_make_guess (create_game\<lparr>guessed := {''a''}\<rparr>) ''a''
       = \<lparr>state = ''already_guessed'', guessed = {''a''}, letters = {}, guesses_left = 1\<rparr>
   \<and> indexed_fns_make_guess (create_game\<lparr>guessed := {''a''}\<rparr>) ''a''
       = \<lparr>state = ''already_guessed'', guessed = {''a''}, letters = {}, guesses_left = 1\<rparr>"
  using make_guess_repeat [of "create_game\<lparr>guessed := {''a''}\<rparr>" "''a''"]
  by (simp add: create_game_def)

section \<open>Frame and monotonicity\<close>

text \<open>
  Claim C8. For every game and every letter, the \<open>letters\<close> field of the result is the
  \<open>letters\<close> field of the input, in all three implementations.
\<close>

theorem make_guess_letters_unchanged:
  "letters (nested_make_guess g x) = letters g
   \<and> letters (indexed_make_guess g x) = letters g
   \<and> letters (indexed_fns_make_guess g x) = letters g"
  by (simp add: nested_defs indexed_defs indexed_fns_defs)

text \<open>
  Claim C7. For every game and every letter, the \<open>guessed\<close> set of the result contains the
  \<open>guessed\<close> set of the input, and \<open>guesses_left\<close> of the result is at most \<open>guesses_left\<close>
  of the input, in all three implementations.
\<close>

theorem make_guess_monotone:
  "guessed g \<subseteq> guessed (nested_make_guess g x)
   \<and> guesses_left (nested_make_guess g x) \<le> guesses_left g
   \<and> guessed g \<subseteq> guessed (indexed_make_guess g x)
   \<and> guesses_left (indexed_make_guess g x) \<le> guesses_left g
   \<and> guessed g \<subseteq> guessed (indexed_fns_make_guess g x)
   \<and> guesses_left (indexed_fns_make_guess g x) \<le> guesses_left g"
  by (auto simp add: nested_defs indexed_defs indexed_fns_defs)

section \<open>The losing guess\<close>

text \<open>
  Claim C4. For every game whose state is neither \<open>won\<close> nor \<open>lost\<close> and every letter that
  is not in \<open>guessed\<close> and not in \<open>letters\<close>, when \<open>letters\<close> is not a subset of
  \<open>guessed \<union> {guess}\<close> and \<open>guesses_left\<close> is 1, each implementation returns the game
  with state \<open>lost\<close>, the guess added to \<open>guessed\<close>, \<open>guesses_left\<close> 0 and \<open>letters\<close>
  unchanged.
\<close>

theorem make_guess_losing:
  assumes "state g \<notin> {''won'', ''lost''}"
    and "x \<notin> guessed g"
    and "x \<notin> letters g"
    and "\<not> letters g \<subseteq> guessed g \<union> {x}"
    and "guesses_left g = 1"
  shows "nested_make_guess g x
           = g\<lparr>state := ''lost'', guessed := guessed g \<union> {x}, guesses_left := 0\<rparr>
         \<and> indexed_make_guess g x
           = g\<lparr>state := ''lost'', guessed := guessed g \<union> {x}, guesses_left := 0\<rparr>
         \<and> indexed_fns_make_guess g x
           = g\<lparr>state := ''lost'', guessed := guessed g \<union> {x}, guesses_left := 0\<rparr>"
  using assms by (simp add: nested_defs indexed_defs indexed_fns_defs)

theorem make_guess_losing_witness:
  "state (create_game\<lparr>letters := {''a''}\<rparr>) \<notin> {''won'', ''lost''}
   \<and> ''b'' \<notin> guessed (create_game\<lparr>letters := {''a''}\<rparr>)
   \<and> ''b'' \<notin> letters (create_game\<lparr>letters := {''a''}\<rparr>)
   \<and> \<not> letters (create_game\<lparr>letters := {''a''}\<rparr>)
         \<subseteq> guessed (create_game\<lparr>letters := {''a''}\<rparr>) \<union> {''b''}
   \<and> guesses_left (create_game\<lparr>letters := {''a''}\<rparr>) = 1
   \<and> nested_make_guess (create_game\<lparr>letters := {''a''}\<rparr>) ''b''
       = \<lparr>state = ''lost'', guessed = {''b''}, letters = {''a''}, guesses_left = 0\<rparr>
   \<and> indexed_make_guess (create_game\<lparr>letters := {''a''}\<rparr>) ''b''
       = \<lparr>state = ''lost'', guessed = {''b''}, letters = {''a''}, guesses_left = 0\<rparr>
   \<and> indexed_fns_make_guess (create_game\<lparr>letters := {''a''}\<rparr>) ''b''
       = \<lparr>state = ''lost'', guessed = {''b''}, letters = {''a''}, guesses_left = 0\<rparr>"
  using make_guess_losing [of "create_game\<lparr>letters := {''a''}\<rparr>" "''b''"]
  by (simp add: create_game_def)

section \<open>The state tag after an open game's transition\<close>

text \<open>
  Claim C10. For every game whose state is neither \<open>won\<close> nor \<open>lost\<close> and every letter, the
  state of the result is one of the five tags \<open>already_guessed\<close>, \<open>won\<close>, \<open>lost\<close>,
  \<open>good_guess\<close>, \<open>bad_guess\<close>, in all three implementations; so a tag outside these five,
  such as the empty one, is never the state of the result.
\<close>

theorem make_guess_state_tag:
  assumes "state g \<notin> {''won'', ''lost''}"
  shows "state (nested_make_guess g x)
           \<in> {''already_guessed'', ''won'', ''lost'', ''good_guess'', ''bad_guess''}
         \<and> state (indexed_make_guess g x)
           \<in> {''already_guessed'', ''won'', ''lost'', ''good_guess'', ''bad_guess''}
         \<and> state (indexed_fns_make_guess g x)
           \<in> {''already_guessed'', ''won'', ''lost'', ''good_guess'', ''bad_guess''}"
  using assms by (simp add: nested_defs indexed_defs indexed_fns_defs)

theorem make_guess_state_tag_witness:
  "state (create_game\<lparr>letters := {''a'', ''b''}\<rparr>) \<notin> {''won'', ''lost''}
   \<and> state (nested_make_guess (create_game\<lparr>letters := {''a'', ''b''}\<rparr>) ''a'')
       \<in> {''already_guessed'', ''won'', ''lost'', ''good_guess'', ''bad_guess''}
   \<and> state (indexed_make_guess (create_game\<lparr>letters := {''a'', ''b''}\<rparr>) ''a'')
       \<in> {''already_guessed'', ''won'', ''lost'', ''good_guess'', ''bad_guess''}
   \<and> state (indexed_fns_make_guess (create_game\<lparr>letters := {''a'', ''b''}\<rparr>) ''a'')
       \<in> {''already_guessed'', ''won'', ''lost'', ''good_guess'', ''bad_guess''}
   \<and> state (indexed_make_guess (create_game\<lparr>letters := {''a'', ''b''}\<rparr>) ''a'')
       \<noteq> state (create_game\<lparr>letters := {''a'', ''b''}\<rparr>)"
  using make_guess_state_tag [of "create_game\<lparr>letters := {''a'', ''b''}\<rparr>" "''a''"]
  by (simp add: create_game_def indexed_defs)

section \<open>An empty set of secret letters\<close>

text \<open>
  Claim C9. In the indexed and indexed\_fns implementations, for every game with empty
  \<open>letters\<close>, a state that is neither \<open>won\<close> nor \<open>lost\<close>, and a guess that is not in
  \<open>guessed\<close>, the result has state \<open>won\<close> and the guess added to \<open>guessed\<close>; the other
  fields are those of the input.
\<close>

theorem indexed_empty_letters_won:
  assumes "letters g = {}"
    and "state g \<notin> {''won'', ''lost''}"
    and "x \<notin> guessed g"
  shows "indexed_make_guess g x = g\<lparr>state := ''won'', guessed := guessed g \<union> {x}\<rparr>
         \<and> indexed_fns_make_guess g x = g\<lparr>state := ''won'', guessed := guessed g \<union> {x}\<rparr>"
  using assms by (simp add: indexed_defs indexed_fns_defs)

theorem indexed_empty_letters_won_witness:
  "letters create_game = {}
   \<and> state create_game \<notin> {''won'', ''lost''}
   \<and> ''m'' \<notin> guessed create_game
   \<and> indexed_make_guess create_game ''m''
       = \<lparr>state = ''won'', guessed = {''m''}, letters = {}, guesses_left = 1\<rparr>
   \<and> indexed_fns_make_guess create_game ''m''
       = \<lparr>state = ''won'', guessed = {''m''}, letters = {}, guesses_left = 1\<rparr>"
  using indexed_empty_letters_won [of create_game "''m''"]
  by (simp add: create_game_def)

section \<open>The count of guesses left\<close>

text \<open>
  Claim C2, as stated, fails: the game with \<open>letters = {a}\<close>, nothing guessed, the empty
  state tag and \<open>guesses_left = 0\<close> satisfies \<open>guesses_left \<ge> 0\<close>, and guessing \<open>b\<close> returns
  state \<open>bad_guess\<close> with \<open>guesses_left = -1\<close> in all three implementations, although
  \<open>guesses_left > 1\<close> does not hold.
\<close>

theorem guesses_left_negative_counterexample:
  "0 \<le> guesses_left (create_game\<lparr>letters := {''a''}, guesses_left := 0\<rparr>)
   \<and> nested_make_guess (create_game\<lparr>letters := {''a''}, guesses_left := 0\<rparr>) ''b''
       = \<lparr>state = ''bad_guess'', guessed = {''b''}, letters = {''a''}, guesses_left = - 1\<rparr>
   \<and> indexed_make_guess (create_game\<lparr>letters := {''a''}, guesses_left := 0\<rparr>) ''b''
       = \<lparr>state = ''bad_guess'', guessed = {''b''}, letters = {''a''}, guesses_left = - 1\<rparr>
   \<and> indexed_fns_make_guess (create_game\<lparr>letters := {''a''}, guesses_left := 0\<rparr>) ''b''
       = \<lparr>state = ''bad_guess'', guessed = {''b''}, letters = {''a''}, guesses_left = - 1\<rparr>
   \<and> \<not> 0 \<le> guesses_left
         (indexed_make_guess (create_game\<lparr>letters := {''a''}, guesses_left := 0\<rparr>) ''b'')
   \<and> \<not> 1 < guesses_left (create_game\<lparr>letters := {''a''}, guesses_left := 0\<rparr>)"
  by (simp add: create_game_def nested_defs indexed_defs indexed_fns_defs)

text \<open>
  Claim C2, amended. For every game with \<open>guesses_left \<ge> 0\<close> in which \<open>guesses_left = 0\<close>
  occurs only together with state \<open>won\<close> or \<open>lost\<close>, and every letter, in all three
  implementations: the result has \<open>guesses_left \<ge> 0\<close>, again 0 only together with \<open>won\<close>
  or \<open>lost\<close>; \<open>guesses_left\<close> is either unchanged or smaller by exactly 1; it changes only
  when the game was open and the guess was neither guessed before nor a secret letter;
  and the result has state \<open>bad_guess\<close> only when the guess is not in \<open>letters\<close> and
  \<open>guesses_left > 1\<close>.
\<close>

theorem guesses_left_bounded:
  assumes "open_with_guesses g"
  shows "(\<forall>r \<in> {nested_make_guess g x, indexed_make_guess g x, indexed_fns_make_guess g x}.
            0 \<le> guesses_left r
            \<and> open_with_guesses r
            \<and> (guesses_left r = guesses_left g \<or> guesses_left r = guesses_left g - 1)
            \<and> (guesses_left r \<noteq> guesses_left g \<longrightarrow>
                 state g \<notin> {''won'', ''lost''} \<and> x \<notin> guessed g \<and> x \<notin> letters g)
            \<and> (state r = ''bad_guess'' \<longrightarrow> x \<notin> letters g \<and> 1 < guesses_left g))"
  using assms
  by (auto simp add: open_with_guesses_def nested_defs indexed_defs indexed_fns_defs)

theorem guesses_left_bounded_witness:
  "open_with_guesses (create_game\<lparr>letters := {''a''}, guesses_left := 3\<rparr>)
   \<and> nested_make_guess (create_game\<lparr>letters := {''a''}, guesses_left := 3\<rparr>) ''b''
       = \<lparr>state = ''bad_guess'', guessed = {''b''}, letters = {''a''}, guesses_left = 2\<rparr>
   \<and> indexed_make_guess (create_game\<lparr>letters := {''a''}, guesses_left := 3\<rparr>) ''b''
       = \<lparr>state = ''bad_guess'', guessed = {''b''}, letters = {''a''}, guesses_left = 2\<rparr>
   \<and> indexed_fns_make_guess (create_game\<lparr>letters := {''a''}, guesses_left := 3\<rparr>) ''b''
       = \<lparr>state = ''bad_guess'', guessed = {''b''}, letters = {''a''}, guesses_left = 2\<rparr>
   \<and> 0 \<le> guesses_left
         (nested_make_guess (create_game\<lparr>letters := {''a''}, guesses_left := 3\<rparr>) ''b'')
   \<and> 0 \<le> guesses_left
         (indexed_make_guess (create_game\<lparr>letters := {''a''}, guesses_left := 3\<rparr>) ''b'')
   \<and> 0 \<le> guesses_left
         (indexed_fns_make_guess (create_game\<lparr>letters := {''a''}, guesses_left := 3\<rparr>) ''b'')
   \<and> open_with_guesses
         (indexed_make_guess (create_game\<lparr>letters := {''a''}, guesses_left := 3\<rparr>) ''b'')
   \<and> ''b'' \<notin> letters (create_game\<lparr>letters := {''a''}, guesses_left := 3\<rparr>)
   \<and> 1 < guesses_left (create_game\<lparr>letters := {''a''}, guesses_left := 3\<rparr>)"
proof -
  have h: "open_with_guesses (create_game\<lparr>letters := {''a''}, guesses_left := 3\<rparr>)"
    by (simp add: open_with_guesses_def create_game_def)
  from guesses_left_bounded [OF h, of "''b''"] h show ?thesis
    by (simp add: open_with_guesses_def create_game_def
          nested_defs indexed_defs indexed_fns_defs)
qed

section \<open>Where the nested version parts from the flat ones\<close>

text \<open>
  Claim C1 says that the three implementations return the same game on every input. They
  do not: on the game that \<^verbatim>\<open>create_game()\<close> builds and the guess \<^verbatim>\<open>'m'\<close>, both taken
  from the test suite, the nested version answers \<open>lost\<close> with no guesses left, while the
  flat versions answer \<open>won\<close> with the count untouched.
\<close>

theorem nested_indexed_disagree:
  "nested_make_guess create_game ''m''
     = \<lparr>state = ''lost'', guessed = {''m''}, letters = {}, guesses_left = 0\<rparr>
   \<and> indexed_make_guess create_game ''m''
     = \<lparr>state = ''won'', guessed = {''m''}, letters = {}, guesses_left = 1\<rparr>
   \<and> indexed_fns_make_guess create_game ''m''
     = \<lparr>state = ''won'', guessed = {''m''}, letters = {}, guesses_left = 1\<rparr>
   \<and> nested_make_guess create_game ''m'' \<noteq> indexed_make_guess create_game ''m''
   \<and> nested_make_guess create_game ''m'' \<noteq> indexed_fns_make_guess create_game ''m''"
  by (simp add: create_game_def nested_defs indexed_defs indexed_fns_defs)

text \<open>
  Claim C3 says that a new guess on an open game wins in each of the three implementations
  as soon as \<open>letters \<subseteq> guessed \<union> {guess}\<close>. The nested version does not do so when the guess
  is not a secret letter: on \<^verbatim>\<open>create_game()\<close> and \<^verbatim>\<open>'m'\<close> every hypothesis of the claim
  holds, and the nested version returns state \<open>lost\<close> and \<open>guesses_left = 0\<close>.
\<close>

theorem nested_covered_not_won:
  "state create_game \<notin> {''won'', ''lost''}
   \<and> ''m'' \<notin> guessed create_game
   \<and> letters create_game \<subseteq> guessed create_game \<union> {''m''}
   \<and> state (nested_make_guess create_game ''m'') = ''lost''
   \<and> state (nested_make_guess create_game ''m'') \<noteq> ''won''
   \<and> guesses_left (nested_make_guess create_game ''m'') = 0
   \<and> guesses_left (nested_make_guess create_game ''m'') \<noteq> guesses_left create_game"
  by (simp add: create_game_def nested_defs)

text \<open>
  What does hold of the winning rule: the flat versions follow it on every input, and the
  nested version follows it whenever the guess is a secret letter.
\<close>

lemma indexed_winning:
  assumes "state g \<notin> {''won'', ''lost''}"
    and "x \<notin> guessed g"
    and "letters g \<subseteq> guessed g \<union> {x}"
  shows "indexed_make_guess g x = g\<lparr>state := ''won'', guessed := guessed g \<union> {x}\<rparr>
         \<and> indexed_fns_make_guess g x = g\<lparr>state := ''won'', guessed := guessed g \<union> {x}\<rparr>"
  using assms by (simp add: indexed_defs indexed_fns_defs)

lemma nested_winning:
  assumes "state g \<notin> {''won'', ''lost''}"
    and "x \<notin> guessed g"
    and "letters g \<subseteq> guessed g \<union> {x}"
    and "x \<in> letters g"
  shows "nested_make_guess g x = g\<lparr>state := ''won'', guessed := guessed g \<union> {x}\<rparr>"
  using assms by (simp add: nested_defs)

end
